theory Spec2Isabelle
  imports Complex_Main
begin

section \<open>JavaScript values\<close>

text \<open>
  A JavaScript \<^verbatim>\<open>number\<close>. Finite values are rationals: the arithmetic below is exact,
  the rounding of IEEE doubles is not modelled, and no statement of this theory depends on
  it. \<open>NaN\<close> is kept apart because \<^verbatim>\<open>NaN == NaN\<close> is false.
\<close>

datatype number = Finite rat | NaN | PosInfinity | NegInfinity

text \<open>\<^verbatim>\<open>a == b\<close> on two numbers.\<close>

fun num_eq :: "number \<Rightarrow> number \<Rightarrow> bool" where
  "num_eq NaN b = False"
| "num_eq a NaN = False"
| "num_eq a b = (a = b)"

text \<open>\<^verbatim>\<open>x / c\<close> and \<^verbatim>\<open>x + c\<close> for a finite constant \<open>c > 0\<close>.\<close>

fun div_const :: "number \<Rightarrow> rat \<Rightarrow> number" where
  "div_const (Finite x) c = Finite (x / c)"
| "div_const n c = n"

fun add_const :: "number \<Rightarrow> rat \<Rightarrow> number" where
  "add_const (Finite x) c = Finite (x + c)"
| "add_const n c = n"

text \<open>
  The runtime values the schema layer dispatches on (by \<^verbatim>\<open>typeof\<close> and \<^verbatim>\<open>== null\<close>):
  \<^verbatim>\<open>undefined\<close>, \<^verbatim>\<open>null\<close>, strings, numbers, bigints, booleans and \<^verbatim>\<open>Date\<close> objects
  (a \<^verbatim>\<open>Date\<close> is its time value in milliseconds, \<open>NaN\<close> for an invalid date). Other
  objects, symbols and functions are left out of the value universe.
\<close>

datatype jsval =
  Undefined
| Null
| JString string
| JNumber number
| JBigInt int
| JBoolean bool
| JDate number

text \<open>\<^verbatim>\<open>type Primitive = string | number | boolean\<close>; a cell is \<^verbatim>\<open>Primitive | null\<close>.\<close>

datatype primitive = PString string | PNumber number | PBoolean bool

type_synonym cell = "primitive option"

text \<open>
  What the code throws. \<^verbatim>\<open>assert(cond, msg)\<close> throws an \<open>AssertionError\<close> with the
  message when one is given; \<^verbatim>\<open>new Error()\<close> has none. \<open>TypeError\<close> is what the
  runtime throws by itself (a property of \<^verbatim>\<open>undefined\<close>, a bigint mixed with a number).
  \<open>Rejected\<close> is a rejection of a promise by the callback or by the backing service.
\<close>

datatype error =
  AssertionError "string option"
| Error "string option"
| TypeError
| Rejected string

text \<open>
  Library functions of the runtime that the repository calls and does not define:
  the conversion of a string to a number (\<^verbatim>\<open>Number(s)\<close>, and the implicit conversion of
  \<^verbatim>\<open>s / 86400000\<close>), and the first two bytes of the MD5 digest of a string read as a
  little-endian unsigned 16-bit integer.
\<close>

record runtime =
  StringToNumber :: "string \<Rightarrow> number"
  md5_readUint16LE :: "string \<Rightarrow> nat"

text \<open>\<^verbatim>\<open>value == null\<close>: true of \<^verbatim>\<open>null\<close> and \<^verbatim>\<open>undefined\<close> only.\<close>

fun is_nullish :: "jsval \<Rightarrow> bool" where
  "is_nullish Undefined = True"
| "is_nullish Null = True"
| "is_nullish v = False"

text \<open>Decimal digits of a natural number and of an integer (\<^verbatim>\<open>bigint.toString()\<close>).\<close>

function show_nat :: "nat \<Rightarrow> string" where
  "show_nat n = (if n < 10 then [''0123456789'' ! n] else show_nat (n div 10) @ [''0123456789'' ! (n mod 10)])"
  by pat_completeness auto
termination
  by (relation "measure id") auto

declare show_nat.simps [simp del]

definition show_int :: "int \<Rightarrow> string" where
  "show_int i = (if i < 0 then CHR ''-'' # show_nat (nat (- i)) else show_nat (nat i))"

section \<open>types.ts\<close>

text \<open>\<^verbatim>\<open>interface Type<T> { formatType: string, serialize(value: T): Primitive }\<close>\<close>

record Type =
  formatType :: string
  serialize :: "jsval \<Rightarrow> error + primitive"

definition String :: Type where
  "String = \<lparr>formatType = ''TEXT'',
     serialize = (\<lambda>v. case v of
         JString s \<Rightarrow> Inr (PString s)
       | _ \<Rightarrow> Inl (AssertionError None))\<rparr>"

definition Numeric :: Type where
  "Numeric = \<lparr>formatType = ''TEXT'',
     serialize = (\<lambda>v. case v of
         JBigInt n \<Rightarrow> Inr (PString (show_int n))
       | JNumber n \<Rightarrow> Inr (PNumber n)
       | _ \<Rightarrow> Inl (Error None))\<rparr>"

text \<open>
  \<^verbatim>\<open>value.valueOf()\<close>: the time value of a \<^verbatim>\<open>Date\<close>, the value itself for a primitive,
  a \<open>TypeError\<close> for \<^verbatim>\<open>null\<close> and \<^verbatim>\<open>undefined\<close>.
\<close>

fun valueOf :: "jsval \<Rightarrow> error + jsval" where
  "valueOf Undefined = Inl TypeError"
| "valueOf Null = Inl TypeError"
| "valueOf (JDate t) = Inr (JNumber t)"
| "valueOf v = Inr v"

text \<open>
  The conversion of the left operand of \<^verbatim>\<open>x / 86400000\<close>: a bigint cannot be mixed
  with a number.
\<close>

fun ToNumber_operand :: "runtime \<Rightarrow> jsval \<Rightarrow> error + number" where
  "ToNumber_operand rt (JNumber n) = Inr n"
| "ToNumber_operand rt (JString s) = Inr (StringToNumber rt s)"
| "ToNumber_operand rt (JBoolean b) = Inr (Finite (if b then 1 else 0))"
| "ToNumber_operand rt (JDate t) = Inr t"
| "ToNumber_operand rt Null = Inr (Finite 0)"
| "ToNumber_operand rt Undefined = Inr NaN"
| "ToNumber_operand rt (JBigInt n) = Inl TypeError"

definition DateTime :: "runtime \<Rightarrow> Type" where
  "DateTime rt = \<lparr>formatType = ''DATE_TIME'',
     serialize = (\<lambda>v. case valueOf v of
         Inl e \<Rightarrow> Inl e
       | Inr x \<Rightarrow> (case ToNumber_operand rt x of
             Inl e \<Rightarrow> Inl e
           | Inr n \<Rightarrow> Inr (PNumber (add_const (div_const n 86400000) 25569))))\<rparr>"

definition Boolean :: Type where
  "Boolean = \<lparr>formatType = ''TEXT'',
     serialize = (\<lambda>v. case v of
         JBoolean b \<Rightarrow> Inr (PBoolean b)
       | _ \<Rightarrow> Inl (AssertionError (Some ''Invalid boolean'')))\<rparr>"

section \<open>table.ts\<close>

record ColumnOptions =
  nullable :: bool

record ColumnData =
  type :: Type
  options :: ColumnOptions

record Column =
  name :: string
  data :: ColumnData

text \<open>
  The function \<^verbatim>\<open>Column\<close> (here \<open>ColumnOf\<close>, next to the record of the interface
  \<^verbatim>\<open>Column\<close>): \<^verbatim>\<open>Column(type, options?)\<close> is
  \<^verbatim>\<open>{type, options: {nullable: false, ...options}}\<close>; \<open>None\<close> stands for options that are
  omitted or give no \<^verbatim>\<open>nullable\<close>.
\<close>

definition ColumnOf :: "Type \<Rightarrow> bool option \<Rightarrow> ColumnData" where
  "ColumnOf t opts = \<lparr>type = t,
     options = \<lparr>nullable = (case opts of None \<Rightarrow> False | Some b \<Rightarrow> b)\<rparr>\<rparr>"

text \<open>
  A record passed to insert, \<^verbatim>\<open>Record<string, any>\<close>: its own properties.
  \<^verbatim>\<open>record[k]\<close> of a property that is absent is \<^verbatim>\<open>undefined\<close> (records are plain
  data: no column is named like a property they inherit, such as \<^verbatim>\<open>constructor\<close>).
\<close>

type_synonym Record = "string \<Rightarrow> jsval option"

definition get_prop :: "Record \<Rightarrow> string \<Rightarrow> jsval" where
  "get_prop r k = (case r k of None \<Rightarrow> Undefined | Some v \<Rightarrow> v)"

record TableWriter =
  columns :: "Column list"
  records :: "Record list"

record Table =
  name :: string
  columns :: "Column list"

text \<open>
  The constructor of \<^verbatim>\<open>Table\<close>: one column per property of the schema, in the order
  \<^verbatim>\<open>for (let column in schema)\<close> enumerates them; the schema is given as the list of its
  properties in that order.
\<close>

definition TableOf :: "string \<Rightarrow> (string \<times> ColumnData) list \<Rightarrow> Table" where
  "TableOf n schema =
     \<lparr>Table.name = n, Table.columns = map (\<lambda>(column, d). \<lparr>Column.name = column, data = d\<rparr>) schema\<rparr>"

definition createWriter :: "Table \<Rightarrow> TableWriter" where
  "createWriter t = \<lparr>TableWriter.columns = Table.columns t, records = []\<rparr>"

text \<open>
  The value pushed for one column of one record:
  \<^verbatim>\<open>value == null ? null : column.data.type.serialize(value)\<close>.
\<close>

definition flush_value :: "Column \<Rightarrow> Record \<Rightarrow> error + cell" where
  "flush_value column r =
     (let v = get_prop r (Column.name column) in
      if is_nullish v then Inr None
      else (case serialize (type (data column)) v of
              Inl e \<Rightarrow> Inl e
            | Inr p \<Rightarrow> Inr (Some p)))"

text \<open>The inner loop of \<^verbatim>\<open>flush\<close>, over the columns; a throw ends it.\<close>

fun flush_values :: "Column list \<Rightarrow> Record \<Rightarrow> error + cell list" where
  "flush_values [] r = Inr []"
| "flush_values (c # cs) r =
     (case flush_value c r of
        Inl e \<Rightarrow> Inl e
      | Inr v \<Rightarrow> (case flush_values cs r of
            Inl e \<Rightarrow> Inl e
          | Inr vs \<Rightarrow> Inr (v # vs)))"

text \<open>The outer loop of \<^verbatim>\<open>flush\<close>, over the buffered records.\<close>

fun flush_records :: "Column list \<Rightarrow> Record list \<Rightarrow> error + cell list list" where
  "flush_records cols [] = Inr []"
| "flush_records cols (r # rs) =
     (case flush_values cols r of
        Inl e \<Rightarrow> Inl e
      | Inr row \<Rightarrow> (case flush_records cols rs of
            Inl e \<Rightarrow> Inl e
          | Inr rows \<Rightarrow> Inr (row # rows)))"

definition flush :: "TableWriter \<Rightarrow> error + cell list list" where
  "flush w = flush_records (TableWriter.columns w) (records w)"

text \<open>
  \<^verbatim>\<open>insert\<close> (here \<open>insert_record\<close>) and \<^verbatim>\<open>insertMany\<close> push onto the buffer; the
  writer they return is the writer itself.
\<close>

definition insert_record :: "Record \<Rightarrow> TableWriter \<Rightarrow> TableWriter" where
  "insert_record r w = w\<lparr>records := records w @ [r]\<rparr>"

definition insertMany :: "Record list \<Rightarrow> TableWriter \<Rightarrow> TableWriter" where
  "insertMany rs w = w\<lparr>records := records w @ rs\<rparr>"

text \<open>A call of one of the two methods of a writer, and a sequence of them.\<close>

datatype writer_call = Insert Record | InsertMany "Record list"

fun writer_apply :: "TableWriter \<Rightarrow> writer_call \<Rightarrow> TableWriter" where
  "writer_apply w (Insert r) = insert_record r w"
| "writer_apply w (InsertMany rs) = insertMany rs w"

fun inserted :: "writer_call \<Rightarrow> Record list" where
  "inserted (Insert r) = [r]"
| "inserted (InsertMany rs) = rs"

section \<open>The backing service\<close>

text \<open>
  The requests the code sends through the sheets client, with the parameters it gives.
  A value range \<^verbatim>\<open>{range, values}\<close> is a pair.
\<close>

type_synonym ValueRange = "string \<times> cell list list"

datatype sheet_request =
  AddSheet "nat option" string nat nat
    \<comment> \<open>\<^verbatim>\<open>sheetId\<close> when given, \<^verbatim>\<open>title\<close>, \<^verbatim>\<open>rowCount\<close>, \<^verbatim>\<open>columnCount\<close>\<close>
| UpdateCells nat nat nat nat nat "(string \<times> string) list list" string
    \<comment> \<open>\<^verbatim>\<open>sheetId\<close>, \<^verbatim>\<open>startColumnIndex\<close>, \<^verbatim>\<open>endColumnIndex\<close>, \<^verbatim>\<open>startRowIndex\<close>,
        \<^verbatim>\<open>endRowIndex\<close>, the rows of (\<^verbatim>\<open>stringValue\<close>, \<^verbatim>\<open>numberFormat.type\<close>), \<^verbatim>\<open>fields\<close>\<close>

datatype request =
  Spreadsheets_get string
    \<comment> \<open>\<^verbatim>\<open>spreadsheetId\<close>\<close>
| Spreadsheets_batchUpdate string "sheet_request list"
    \<comment> \<open>\<^verbatim>\<open>spreadsheetId\<close>, \<^verbatim>\<open>requests\<close>\<close>
| Values_get string string
    \<comment> \<open>\<^verbatim>\<open>spreadsheetId\<close>, \<^verbatim>\<open>range\<close>\<close>
| Values_append string string string "cell list list"
    \<comment> \<open>\<^verbatim>\<open>spreadsheetId\<close>, \<^verbatim>\<open>range\<close>, \<^verbatim>\<open>valueInputOption\<close>, \<^verbatim>\<open>values\<close>\<close>
| Values_batchUpdate string "ValueRange list" string bool
    \<comment> \<open>\<^verbatim>\<open>spreadsheetId\<close>, \<^verbatim>\<open>data\<close>, \<^verbatim>\<open>valueInputOption\<close>, \<^verbatim>\<open>includeValuesInResponse\<close>\<close>
| Values_update string string "cell list list" string
    \<comment> \<open>\<^verbatim>\<open>spreadsheetId\<close>, \<^verbatim>\<open>range\<close>, \<^verbatim>\<open>values\<close>, \<^verbatim>\<open>valueInputOption\<close>\<close>

text \<open>
  What the code reads of a spreadsheet's metadata: \<^verbatim>\<open>spreadsheet.sheets\<close>, absent or a
  list, and of every sheet \<^verbatim>\<open>s.properties?.title\<close>.
\<close>

type_synonym Spreadsheet = "string option list option"

text \<open>
  The sheets client is external: it is a parameter. Each method takes the state \<open>'s\<close> of
  the backing service and answers with a rejection or with the part of \<^verbatim>\<open>data\<close> the code
  reads: the metadata, \<^verbatim>\<open>data.values\<close> (absent or rows of cells), \<^verbatim>\<open>data.tableRange\<close>
  (absent or a string).
\<close>

record 's SheetsClient =
  spreadsheets_get :: "string \<Rightarrow> 's \<Rightarrow> (error + Spreadsheet) \<times> 's"
  spreadsheets_batchUpdate :: "string \<Rightarrow> sheet_request list \<Rightarrow> 's \<Rightarrow> (error + unit) \<times> 's"
  values_get :: "string \<Rightarrow> string \<Rightarrow> 's \<Rightarrow> (error + jsval list list option) \<times> 's"
  values_append :: "string \<Rightarrow> string \<Rightarrow> string \<Rightarrow> cell list list \<Rightarrow> 's \<Rightarrow> (error + string option) \<times> 's"
  values_batchUpdate :: "string \<Rightarrow> ValueRange list \<Rightarrow> string \<Rightarrow> bool \<Rightarrow> 's \<Rightarrow> (error + unit) \<times> 's"
  values_update :: "string \<Rightarrow> string \<Rightarrow> cell list list \<Rightarrow> string \<Rightarrow> 's \<Rightarrow> (error + unit) \<times> 's"

text \<open>
  The world outside the process: the state of the backing service and the requests
  issued so far, oldest first.
\<close>

record 's world =
  remote :: 's
  calls :: "request list"

definition issue :: "request \<Rightarrow> ('s \<Rightarrow> 'a \<times> 's) \<Rightarrow> 's world \<Rightarrow> 'a \<times> 's world" where
  "issue req f w =
     (case f (remote w) of (r, s') \<Rightarrow> (r, \<lparr>remote = s', calls = calls w @ [req]\<rparr>))"

section \<open>database.ts\<close>

record 's Database =
  tables :: "(string \<times> Table) list"
  spreadsheetId :: string
  sheetsClient :: "'s SheetsClient"
  lastCommitted :: number

text \<open>
  The constructor. \<open>tables\<close> lists the properties of \<^verbatim>\<open>options.tables\<close> (alias and
  table) in the order \<^verbatim>\<open>Object.keys\<close> and \<^verbatim>\<open>for ... in\<close> enumerate them; the client
  built from \<^verbatim>\<open>options.options\<close> is given directly.
\<close>

definition DatabaseOf :: "(string \<times> Table) list \<Rightarrow> string \<Rightarrow> 's SheetsClient \<Rightarrow> 's Database" where
  "DatabaseOf ts sid client =
     \<lparr>tables = ts, spreadsheetId = sid, sheetsClient = client, lastCommitted = Finite (- 1)\<rparr>"

type_synonym Chunk = "string \<Rightarrow> TableWriter option"

text \<open>
  The two local variables of \<^verbatim>\<open>transact\<close> that the store closes over: \<^verbatim>\<open>open\<close>
  (here \<open>is_open\<close>) and \<^verbatim>\<open>chunk\<close>.
\<close>

record txn =
  is_open :: bool
  chunk :: Chunk

fun createChunk_from :: "(string \<times> Table) list \<Rightarrow> Chunk \<Rightarrow> Chunk" where
  "createChunk_from [] ch = ch"
| "createChunk_from ((n, t) # ts) ch = createChunk_from ts (ch(n \<mapsto> createWriter t))"

definition createChunk :: "'s Database \<Rightarrow> Chunk" where
  "createChunk db = createChunk_from (tables db) Map.empty"

text \<open>
  The function given to the store's constructor:
  \<^verbatim>\<open>() => { assert(open, `Transaction was already closed`); return chunk }\<close>.
\<close>

definition store_chunk :: "txn \<Rightarrow> error + Chunk" where
  "store_chunk tx =
     (if is_open tx then Inr (chunk tx)
      else Inl (AssertionError (Some ''Transaction was already closed'')))"

text \<open>
  \<^verbatim>\<open>store[n]\<close>: the getter defined on the prototype for every alias of \<open>tables\<close>
  returns \<^verbatim>\<open>this.chunk()[n]\<close>; any other property is \<^verbatim>\<open>undefined\<close> (\<open>None\<close>).
\<close>

definition store_get :: "'s Database \<Rightarrow> txn \<Rightarrow> string \<Rightarrow> error + TableWriter option" where
  "store_get db tx n =
     (if n \<in> set (map fst (tables db))
      then (case store_chunk tx of Inl e \<Rightarrow> Inl e | Inr ch \<Rightarrow> Inr (ch n))
      else Inr None)"

text \<open>
  \<^verbatim>\<open>store[n].insert(r)\<close> and \<^verbatim>\<open>store[n].insertMany(rs)\<close>: the writer found is changed
  in place; a method of \<^verbatim>\<open>undefined\<close> is a \<open>TypeError\<close>.
\<close>

definition store_call :: "'s Database \<Rightarrow> txn \<Rightarrow> string \<Rightarrow> writer_call \<Rightarrow> error + txn" where
  "store_call db tx n c =
     (case store_get db tx n of
        Inl e \<Rightarrow> Inl e
      | Inr None \<Rightarrow> Inl TypeError
      | Inr (Some wr) \<Rightarrow> Inr (tx\<lparr>chunk := (chunk tx)(n \<mapsto> writer_apply wr c)\<rparr>))"

text \<open>
  A callback, as far as \<^verbatim>\<open>transact\<close> can see it: the calls it makes on the store it
  is given, in order, and whether it throws (or rejects). An error of a store call ends
  the callback with that error.
\<close>

datatype cb_step = Call string writer_call | Throw error

type_synonym callback = "cb_step list"

fun run_callback :: "'s Database \<Rightarrow> callback \<Rightarrow> txn \<Rightarrow> (error + unit) \<times> txn" where
  "run_callback db [] tx = (Inr (), tx)"
| "run_callback db (Throw e # steps) tx = (Inl e, tx)"
| "run_callback db (Call n c # steps) tx =
     (case store_call db tx n c of
        Inl e \<Rightarrow> (Inl e, tx)
      | Inr tx' \<Rightarrow> run_callback db steps tx')"

subsection \<open>Row reservation\<close>

definition is_upper :: "char \<Rightarrow> bool" where
  "is_upper c = (c \<in> set ''ABCDEFGHIJKLMNOPQRSTUVWXYZ'')"

definition is_digit :: "char \<Rightarrow> bool" where
  "is_digit c = (c \<in> set ''0123456789'')"

text \<open>
  A line terminator, which \<^verbatim>\<open>.\<close> does not match: line feed and carriage return
  (the two others, U+2028 and U+2029, are not single characters of \<open>string\<close>).
\<close>

definition is_line_terminator :: "char \<Rightarrow> bool" where
  "is_line_terminator c = (c = CHR 0x0A \<or> c = CHR 0x0D)"

text \<open>
  \<^verbatim>\<open>/^.*![A-Z]+\d+:[A-Z]+(\d+)$/.exec(s)?.[1]\<close>. The classes of the part after \<^verbatim>\<open>!\<close>
  are disjoint and the pattern is anchored at the end, so the match is read from the end
  of the string: the digits of the group, the letters before them, the colon, digits,
  letters, the \<^verbatim>\<open>!\<close>, and before it any characters but line terminators.
\<close>

definition exec_tableRange :: "string \<Rightarrow> string option" where
  "exec_tableRange s =
     (let r = rev s;
          d2 = takeWhile is_digit r; r1 = dropWhile is_digit r;
          l2 = takeWhile is_upper r1; r2 = dropWhile is_upper r1
      in case r2 of
           [] \<Rightarrow> None
         | c # r3 \<Rightarrow>
            (let d1 = takeWhile is_digit r3; r4 = dropWhile is_digit r3;
                 l1 = takeWhile is_upper r4; r5 = dropWhile is_upper r4
             in case r5 of
                  [] \<Rightarrow> None
                | b # pre \<Rightarrow>
                    if c = CHR '':'' \<and> b = CHR ''!'' \<and> d2 \<noteq> [] \<and> l2 \<noteq> [] \<and> d1 \<noteq> [] \<and> l1 \<noteq> []
                       \<and> \<not> (\<exists>x \<in> set pre. is_line_terminator x)
                    then Some (rev d2) else None))"

text \<open>
  \<^verbatim>\<open>Number(index)\<close> for a string of decimal digits: its value (exact below \<open>2^53\<close>,
  which row numbers are).
\<close>

definition digit_value :: "char \<Rightarrow> nat" where
  "digit_value c = length (takeWhile (\<lambda>d. d \<noteq> c) ''0123456789'')"

definition Number_digits :: "string \<Rightarrow> nat" where
  "Number_digits ds = foldl (\<lambda>n c. 10 * n + digit_value c) 0 ds"

definition quote :: char where
  "quote = CHR 0x27"

text \<open>The literal spreadsheet id in \<^verbatim>\<open>getNextRowIndex\<close>.\<close>

definition reservation_spreadsheetId :: string where
  "reservation_spreadsheetId = ''1g6aHhV7-EsB6SRmM9KIQq9y_Mm4ZVfMw_5aK79NvDXg''"

text \<open>The request \<^verbatim>\<open>getNextRowIndex(sheet)\<close> sends.\<close>

definition append_request :: "string \<Rightarrow> request" where
  "append_request sheet =
     Values_append reservation_spreadsheetId ([quote] @ sheet @ [quote]) ''RAW'' [[Some (PString [])]]"

text \<open>What \<^verbatim>\<open>getNextRowIndex\<close> does with \<^verbatim>\<open>data.tableRange\<close>: two assertions and a conversion.\<close>

definition index_of_tableRange :: "string option \<Rightarrow> error + nat" where
  "index_of_tableRange tableRange =
     (case tableRange of
        None \<Rightarrow> Inl (AssertionError None)
      | Some tr \<Rightarrow>
         (case exec_tableRange tr of
            None \<Rightarrow> Inl (AssertionError None)
          | Some index \<Rightarrow> Inr (Number_digits index)))"

definition getNextRowIndex :: "'s Database \<Rightarrow> string \<Rightarrow> 's world \<Rightarrow> (error + nat) \<times> 's world" where
  "getNextRowIndex db sheet w =
     (case issue (append_request sheet)
             (values_append (sheetsClient db) reservation_spreadsheetId ([quote] @ sheet @ [quote])
                ''RAW'' [[Some (PString [])]]) w of
        (Inl e, w') \<Rightarrow> (Inl e, w')
      | (Inr tableRange, w') \<Rightarrow> (index_of_tableRange tableRange, w'))"

text \<open>
  \<^verbatim>\<open>Promise.all(tableAliases.map((a) => this.getNextRowIndex(this.tables[a].name)))\<close>:
  \<^verbatim>\<open>map\<close> starts every call, so every append request is sent, whatever the others answer.
  The answers are taken in the order of the aliases, and of several rejections the first
  in that order is the one \<^verbatim>\<open>Promise.all\<close> rejects with: one of the schedules the
  concurrent calls allow.
\<close>

fun all_started :: "('a \<Rightarrow> 'w \<Rightarrow> 'b \<times> 'w) \<Rightarrow> 'a list \<Rightarrow> 'w \<Rightarrow> 'b list \<times> 'w" where
  "all_started f [] w = ([], w)"
| "all_started f (x # xs) w =
     (case f x w of (r, w') \<Rightarrow>
        (case all_started f xs w' of (rs, w'') \<Rightarrow> (r # rs, w'')))"

fun Promise_all :: "(error + 'a) list \<Rightarrow> error + 'a list" where
  "Promise_all [] = Inr []"
| "Promise_all (Inl e # rs) = Inl e"
| "Promise_all (Inr x # rs) = (case Promise_all rs of Inl e \<Rightarrow> Inl e | Inr xs \<Rightarrow> Inr (x # xs))"

subsection \<open>transact\<close>

text \<open>\<^verbatim>\<open>`'${table.name}'!R${newRowIndecies[i] + 1}C1:C${table.columns.length}`\<close>\<close>

definition table_range :: "Table \<Rightarrow> nat \<Rightarrow> string" where
  "table_range t index =
     [quote] @ Table.name t @ [quote] @ ''!R'' @ show_nat (index + 1) @ ''C1:C''
       @ show_nat (length (Table.columns t))"

text \<open>
  The loop that fills \<^verbatim>\<open>requests\<close>: for the i-th alias, the range of its table at the
  i-th index and the rows its writer in the chunk flushes. A throw of \<^verbatim>\<open>flush\<close> ends it.
\<close>

fun table_requests :: "Chunk \<Rightarrow> ((string \<times> Table) \<times> nat) list \<Rightarrow> error + ValueRange list" where
  "table_requests ch [] = Inr []"
| "table_requests ch (((a, t), index) # rest) =
     (case ch a of
        None \<Rightarrow> Inl TypeError
      | Some wr \<Rightarrow>
         (case flush wr of
            Inl e \<Rightarrow> Inl e
          | Inr vals \<Rightarrow>
             (case table_requests ch rest of
                Inl e \<Rightarrow> Inl e
              | Inr reqs \<Rightarrow> Inr ((table_range t index, vals) # reqs))))"

definition checkpoint_range :: string where
  "checkpoint_range = ''squid_status!R1C1''"

text \<open>
  \<^verbatim>\<open>transact(from, to, cb)\<close>. The result is what the promise settles with, the database,
  the two variables the store closes over as they are left, and the world.
\<close>

definition transact ::
  "'s Database \<Rightarrow> number \<Rightarrow> number \<Rightarrow> callback \<Rightarrow> 's world
     \<Rightarrow> (error + unit) \<times> 's Database \<times> txn \<times> 's world" where
  "transact db from to cb w =
     (case run_callback db cb \<lparr>is_open = True, chunk = createChunk db\<rparr> of
        (Inl e, tx) \<Rightarrow> (Inl e, db, tx\<lparr>is_open := False\<rparr>, w)
      | (Inr _, tx) \<Rightarrow>
         (case all_started (\<lambda>(a, t). getNextRowIndex db (Table.name t)) (tables db) w of
            (answers, w1) \<Rightarrow>
              (case Promise_all answers of
                 Inl e \<Rightarrow> (Inl e, db, tx\<lparr>is_open := False\<rparr>, w1)
               | Inr newRowIndecies \<Rightarrow>
                  (case table_requests (chunk tx) (zip (tables db) newRowIndecies) of
                     Inl e \<Rightarrow> (Inl e, db, tx\<lparr>is_open := False\<rparr>, w1)
                   | Inr requests \<Rightarrow>
                      (case issue
                              (Values_batchUpdate (spreadsheetId db)
                                 (requests @ [(checkpoint_range, [[Some (PNumber to)]])])
                                 ''USER_ENTERED'' False)
                              (values_batchUpdate (sheetsClient db) (spreadsheetId db)
                                 (requests @ [(checkpoint_range, [[Some (PNumber to)]])])
                                 ''USER_ENTERED'' False) w1 of
                         (Inl e, w2) \<Rightarrow> (Inl e, db, tx\<lparr>is_open := False\<rparr>, w2)
                       | (Inr _, w2) \<Rightarrow>
                           (Inr (), db\<lparr>lastCommitted := to\<rparr>, tx\<lparr>is_open := False\<rparr>, w2))))))"

subsection \<open>advance and close\<close>

definition advance ::
  "'s Database \<Rightarrow> number \<Rightarrow> 's world \<Rightarrow> (error + unit) \<times> 's Database \<times> 's world" where
  "advance db height w =
     (if num_eq (lastCommitted db) height then (Inr (), db, w)
      else (case issue
                   (Values_update (spreadsheetId db) checkpoint_range
                      [[Some (PNumber height)]] ''USER_ENTERED'')
                   (values_update (sheetsClient db) (spreadsheetId db) checkpoint_range
                      [[Some (PNumber height)]] ''USER_ENTERED'') w of
              (r, w') \<Rightarrow> (r, db, w')))"

definition close :: "'s Database \<Rightarrow> 's Database" where
  "close db = db\<lparr>lastCommitted := Finite (- 1)\<rparr>"

subsection \<open>connect and migrate\<close>

text \<open>
  \<^verbatim>\<open>spreadsheet.sheets?.find((s) => s.properties?.title === title)\<close> is not \<^verbatim>\<open>null\<close>
  or \<^verbatim>\<open>undefined\<close>.
\<close>

definition has_sheet :: "Spreadsheet \<Rightarrow> string \<Rightarrow> bool" where
  "has_sheet spreadsheet title =
     (case spreadsheet of None \<Rightarrow> False | Some ss \<Rightarrow> Some title \<in> set ss)"

text \<open>
  The filter of \<^verbatim>\<open>migrate\<close>:
  \<^verbatim>\<open>spreadsheet.sheets?.findIndex((s) => s.properties?.title == t.name) === -1\<close>,
  which is false when \<^verbatim>\<open>sheets\<close> is absent.
\<close>

definition is_new_table :: "Spreadsheet \<Rightarrow> Table \<Rightarrow> bool" where
  "is_new_table spreadsheet t =
     (case spreadsheet of None \<Rightarrow> False | Some ss \<Rightarrow> Some (Table.name t) \<notin> set ss)"

text \<open>The two requests \<^verbatim>\<open>migrate\<close> makes for a new table.\<close>

definition migrate_requests :: "runtime \<Rightarrow> Table \<Rightarrow> sheet_request list" where
  "migrate_requests rt t =
     (let sheetId = md5_readUint16LE rt (Table.name t) in
      [AddSheet (Some sheetId) (Table.name t) 1 (length (Table.columns t)),
       UpdateCells sheetId 0 (length (Table.columns t)) 0 1
         [map (\<lambda>c. (Column.name c, formatType (type (data c)))) (Table.columns t)]
         ''userEnteredValue(stringValue),userEnteredFormat(numberFormat)''])"

definition migrate :: "runtime \<Rightarrow> 's Database \<Rightarrow> 's world \<Rightarrow> (error + unit) \<times> 's world" where
  "migrate rt db w =
     (case issue (Spreadsheets_get (spreadsheetId db))
             (spreadsheets_get (sheetsClient db) (spreadsheetId db)) w of
        (Inl e, w1) \<Rightarrow> (Inl e, w1)
      | (Inr spreadsheet, w1) \<Rightarrow>
         (let newTables = filter (is_new_table spreadsheet) (map snd (tables db)) in
          if length newTables > 0
          then (case issue
                       (Spreadsheets_batchUpdate (spreadsheetId db)
                          (concat (map (migrate_requests rt) newTables)))
                       (spreadsheets_batchUpdate (sheetsClient db) (spreadsheetId db)
                          (concat (map (migrate_requests rt) newTables))) w1 of
                  (Inl e, w2) \<Rightarrow> (Inl e, w2)
                | (Inr _, w2) \<Rightarrow> (Inr (), w2))
          else (Inr (), w1)))"

text \<open>\<^verbatim>\<open>data.values?.[0]?.[0]\<close>\<close>

definition first_cell :: "jsval list list option \<Rightarrow> jsval" where
  "first_cell vals =
     (case vals of
        None \<Rightarrow> Undefined
      | Some [] \<Rightarrow> Undefined
      | Some ([] # _) \<Rightarrow> Undefined
      | Some ((v # _) # _) \<Rightarrow> v)"

text \<open>\<^verbatim>\<open>Number(v)\<close>\<close>

fun Number :: "runtime \<Rightarrow> jsval \<Rightarrow> number" where
  "Number rt (JNumber n) = n"
| "Number rt (JString s) = StringToNumber rt s"
| "Number rt (JBoolean b) = Finite (if b then 1 else 0)"
| "Number rt (JBigInt i) = Finite (of_int i)"
| "Number rt (JDate t) = t"
| "Number rt Null = Finite 0"
| "Number rt Undefined = NaN"

text \<open>\<^verbatim>\<open>Number(data.values?.[0]?.[0] ?? -1)\<close>\<close>

definition checkpoint_of :: "runtime \<Rightarrow> jsval list list option \<Rightarrow> number" where
  "checkpoint_of rt vals =
     Number rt (if is_nullish (first_cell vals) then JNumber (Finite (- 1)) else first_cell vals)"

definition status_title :: string where
  "status_title = ''squid_status''"

text \<open>
  \<^verbatim>\<open>connect()\<close>: what the promise settles with, the database and the world. The field
  \<^verbatim>\<open>lastCommitted\<close> is assigned before \<^verbatim>\<open>migrate\<close> runs, so it keeps the new value when
  \<^verbatim>\<open>migrate\<close> fails.
\<close>

definition connect ::
  "runtime \<Rightarrow> 's Database \<Rightarrow> 's world \<Rightarrow> (error + number) \<times> 's Database \<times> 's world" where
  "connect rt db w =
     (case issue (Spreadsheets_get (spreadsheetId db))
             (spreadsheets_get (sheetsClient db) (spreadsheetId db)) w of
        (Inl e, w1) \<Rightarrow> (Inl e, db, w1)
      | (Inr spreadsheet, w1) \<Rightarrow>
         (case (if \<not> has_sheet spreadsheet status_title
                then (case issue
                             (Spreadsheets_batchUpdate (spreadsheetId db) [AddSheet None status_title 1 1])
                             (spreadsheets_batchUpdate (sheetsClient db) (spreadsheetId db)
                                [AddSheet None status_title 1 1]) w1 of
                        (Inl e, w2) \<Rightarrow> (Inl e, w2)
                      | (Inr _, w2) \<Rightarrow> (Inr (Finite (- 1)), w2))
                else (case issue (Values_get (spreadsheetId db) checkpoint_range)
                             (values_get (sheetsClient db) (spreadsheetId db) checkpoint_range) w1 of
                        (Inl e, w2) \<Rightarrow> (Inl e, w2)
                      | (Inr vals, w2) \<Rightarrow> (Inr (checkpoint_of rt vals), w2))) of
            (Inl e, w2) \<Rightarrow> (Inl e, db, w2)
          | (Inr n, w2) \<Rightarrow>
             (case migrate rt (db\<lparr>lastCommitted := n\<rparr>) w2 of
                (Inl e, w3) \<Rightarrow> (Inl e, db\<lparr>lastCommitted := n\<rparr>, w3)
              | (Inr _, w3) \<Rightarrow> (Inr n, db\<lparr>lastCommitted := n\<rparr>, w3))))"

section \<open>Notions used in the statements\<close>

text \<open>
  The cell a column holds for a record: \<open>None\<close> (that is, \<^verbatim>\<open>null\<close>) when the record's
  value is \<^verbatim>\<open>null\<close> or absent, the serialized value otherwise.
\<close>

definition cell_of :: "Column \<Rightarrow> Record \<Rightarrow> cell \<Rightarrow> bool" where
  "cell_of c r x =
     (if is_nullish (get_prop r (Column.name c)) then x = None
      else (case x of
              None \<Rightarrow> False
            | Some p \<Rightarrow> serialize (type (data c)) (get_prop r (Column.name c)) = Inr p))"

text \<open>
  The table of the scenario \<^verbatim>\<open>{id: Numeric (non-null), name: String (nullable)}\<close> and the
  two inserts \<^verbatim>\<open>{id: 1, name: null}\<close> and \<^verbatim>\<open>{id: 2}\<close>.
\<close>

definition scenario_table :: Table where
  "scenario_table =
     TableOf ''A'' [(''id'', ColumnOf Numeric None), (''name'', ColumnOf String (Some True))]"

definition scenario_inserts :: "writer_call list" where
  "scenario_inserts =
     [Insert [''id'' \<mapsto> JNumber (Finite 1), ''name'' \<mapsto> Null],
      Insert [''id'' \<mapsto> JNumber (Finite 2)]]"

text \<open>A table whose only column, \<^verbatim>\<open>id\<close>, is \<^verbatim>\<open>Numeric\<close> and not nullable.\<close>

definition strict_table :: Table where
  "strict_table = TableOf ''A'' [(''id'', ColumnOf Numeric None)]"

text \<open>
  A stand-in for the backing service, to run the code on: it remembers the titles of the
  sheets, the content of the checkpoint cell and the number of rows appended, lists the
  titles as metadata, adds the titles of \<^verbatim>\<open>addSheet\<close> requests, answers an append with
  a table range that ends at the row before the appended one, writes the last value of a
  batch into the checkpoint cell, and rejects nothing.
\<close>

record memory =
  titles :: "string list"
  status_cell :: "jsval option"
  appended :: nat

fun added_title :: "sheet_request \<Rightarrow> string list" where
  "added_title (AddSheet i t r c) = [t]"
| "added_title (UpdateCells i c0 c1 r0 r1 rows f) = []"

fun cell_value :: "cell list list \<Rightarrow> jsval option" where
  "cell_value ((Some (PNumber n) # _) # _) = Some (JNumber n)"
| "cell_value ((Some (PString s) # _) # _) = Some (JString s)"
| "cell_value ((Some (PBoolean b) # _) # _) = Some (JBoolean b)"
| "cell_value _ = None"

definition memory_client :: "memory SheetsClient" where
  "memory_client =
     \<lparr>spreadsheets_get = (\<lambda>sid s. (Inr (Some (map Some (titles s))), s)),
      spreadsheets_batchUpdate =
        (\<lambda>sid reqs s. (Inr (), s\<lparr>titles := titles s @ concat (map added_title reqs)\<rparr>)),
      values_get =
        (\<lambda>sid range s. (Inr (case status_cell s of None \<Rightarrow> None | Some v \<Rightarrow> Some [[v]]), s)),
      values_append =
        (\<lambda>sid range opt vals s.
           (Inr (Some (range @ ''!A1:B'' @ show_nat (Suc (appended s)))),
            s\<lparr>appended := Suc (appended s)\<rparr>)),
      values_batchUpdate =
        (\<lambda>sid ranges opt inc s.
           (Inr (), if ranges = [] then s else s\<lparr>status_cell := cell_value (snd (last ranges))\<rparr>)),
      values_update =
        (\<lambda>sid range vals opt s. (Inr (), s\<lparr>status_cell := cell_value vals\<rparr>))\<rparr>"

text \<open>The same service with a batched write that is rejected.\<close>

definition failing_client :: "memory SheetsClient" where
  "failing_client =
     memory_client\<lparr>values_batchUpdate := (\<lambda>sid ranges opt inc s. (Inl (Rejected ''quota''), s))\<rparr>"

definition empty_memory :: memory where
  "empty_memory = \<lparr>titles = [], status_cell = None, appended = 0\<rparr>"

definition empty_world :: "memory world" where
  "empty_world = \<lparr>remote = empty_memory, calls = []\<rparr>"

text \<open>
  A database of the scenario's table under the alias \<^verbatim>\<open>a\<close>, constructed with the
  spreadsheet id \<^verbatim>\<open>my-spreadsheet\<close>.
\<close>

definition scenario_db :: "memory SheetsClient \<Rightarrow> memory Database" where
  "scenario_db client = DatabaseOf [(''a'', scenario_table)] ''my-spreadsheet'' client"

definition scenario_callback :: callback where
  "scenario_callback = map (Call ''a'') scenario_inserts"

text \<open>
  The range the words "the reserved row range sized to the buffered row count" describe:
  \<open>n\<close> rows from the row after \<open>index\<close>, over the columns of the table.
\<close>

definition reserved_row_range :: "Table \<Rightarrow> nat \<Rightarrow> nat \<Rightarrow> string" where
  "reserved_row_range t index n =
     [quote] @ Table.name t @ [quote] @ ''!R'' @ show_nat (index + 1) @ ''C1:R''
       @ show_nat (index + n) @ ''C'' @ show_nat (length (Table.columns t))"

text \<open>
  The batched update of the spreadsheet of the database: the given table writes, then
  the write of \<open>to\<close> into the checkpoint cell.
\<close>

definition batched_update :: "'s Database \<Rightarrow> ValueRange list \<Rightarrow> number \<Rightarrow> request" where
  "batched_update db requests to =
     Values_batchUpdate (spreadsheetId db)
       (requests @ [(''squid_status!R1C1'', [[Some (PNumber to)]])]) ''USER_ENTERED'' False"

text \<open>The write of a height into the checkpoint cell of the spreadsheet of the database.\<close>

definition checkpoint_update :: "'s Database \<Rightarrow> number \<Rightarrow> request" where
  "checkpoint_update db height =
     Values_update (spreadsheetId db) ''squid_status!R1C1'' [[Some (PNumber height)]] ''USER_ENTERED''"

definition closed_error :: error where
  "closed_error = AssertionError (Some ''Transaction was already closed'')"

text \<open>
  The scenario's transaction \<^verbatim>\<open>transact(0, 1, cb)\<close> on the stand-in service, the same
  with the batched write rejected, and a callback that inserts one record only.
\<close>

definition scenario_run :: "(error + unit) \<times> memory Database \<times> txn \<times> memory world" where
  "scenario_run =
     transact (scenario_db memory_client) (Finite 0) (Finite 1) scenario_callback empty_world"

definition failing_run :: "(error + unit) \<times> memory Database \<times> txn \<times> memory world" where
  "failing_run =
     transact (scenario_db failing_client) (Finite 0) (Finite 1) scenario_callback empty_world"

definition single_callback :: callback where
  "single_callback = [Call ''a'' (Insert [''id'' \<mapsto> JNumber (Finite 1)])]"

text \<open>
  The number of \<^verbatim>\<open>addSheet\<close> requests for a sheet titled \<^verbatim>\<open>squid_status\<close> in a request,
  and in a list of requests: how often the checkpoint sheet was created.
\<close>

fun creates_status :: "request \<Rightarrow> nat" where
  "creates_status (Spreadsheets_batchUpdate sid reqs) =
     length (filter (\<lambda>t. t = status_title) (concat (map added_title reqs)))"
| "creates_status r = 0"

definition status_created :: "request list \<Rightarrow> nat" where
  "status_created cs = sum_list (map creates_status cs)"

text \<open>
  What the statement about \<^verbatim>\<open>connect\<close> asks of the backing service. It rejects none of
  the three calls \<^verbatim>\<open>connect\<close> and \<^verbatim>\<open>migrate\<close> make. And it remembers the checkpoint
  sheet of the spreadsheet: with \<open>has s\<close> for "in the state \<open>s\<close> the spreadsheet has a sheet
  titled \<^verbatim>\<open>squid_status\<close>", the metadata lists such a sheet exactly when \<open>has\<close> holds,
  reading metadata or values does not change \<open>has\<close>, and after an accepted batch of sheet
  requests \<open>has\<close> holds exactly when it held before or the batch added such a sheet.
\<close>

definition accepts :: "'s SheetsClient \<Rightarrow> bool" where
  "accepts c \<longleftrightarrow>
     (\<forall>sid s. \<exists>sp. fst (spreadsheets_get c sid s) = Inr sp) \<and>
     (\<forall>sid reqs s. fst (spreadsheets_batchUpdate c sid reqs s) = Inr ()) \<and>
     (\<forall>sid range s. \<exists>vals. fst (values_get c sid range s) = Inr vals)"

definition tracks_status :: "'s SheetsClient \<Rightarrow> string \<Rightarrow> ('s \<Rightarrow> bool) \<Rightarrow> bool" where
  "tracks_status c sid has \<longleftrightarrow>
     (\<forall>s. has (snd (spreadsheets_get c sid s)) = has s) \<and>
     (\<forall>s sp. fst (spreadsheets_get c sid s) = Inr sp \<longrightarrow> has_sheet sp status_title = has s) \<and>
     (\<forall>reqs s. fst (spreadsheets_batchUpdate c sid reqs s) = Inr () \<longrightarrow>
        has (snd (spreadsheets_batchUpdate c sid reqs s))
          = (has s \<or> status_title \<in> set (concat (map added_title reqs)))) \<and>
     (\<forall>range s. has (snd (values_get c sid range s)) = has s)"

text \<open>
  A runtime to run \<^verbatim>\<open>connect\<close> with, two calls of \<^verbatim>\<open>connect\<close> in sequence on the
  stand-in service, starting with no sheet at all, and what \<open>has\<close> is for that service.
\<close>

definition stub_runtime :: runtime where
  "stub_runtime = \<lparr>StringToNumber = (\<lambda>s. NaN), md5_readUint16LE = (\<lambda>s. 0)\<rparr>"

definition first_connect :: "(error + number) \<times> memory Database \<times> memory world" where
  "first_connect = connect stub_runtime (scenario_db memory_client) empty_world"

definition second_connect :: "(error + number) \<times> memory Database \<times> memory world" where
  "second_connect = connect stub_runtime (fst (snd first_connect)) (snd (snd first_connect))"

definition has_status :: "memory \<Rightarrow> bool" where
  "has_status s = (status_title \<in> set (titles s))"

section \<open>TableWriter\<close>

lemma flush_values_iff:
  "flush_values cols r = Inr row \<longleftrightarrow> list_all2 (\<lambda>c x. flush_value c r = Inr x) cols row"
proof (induction cols arbitrary: row)
  case Nil
  show ?case by auto
next
  case (Cons c cs)
  show ?case
    by (cases "flush_value c r"; cases "flush_values cs r"; cases row)
       (auto simp: Cons.IH [symmetric])
qed

lemma flush_records_iff:
  "flush_records cols rs = Inr rows \<longleftrightarrow>
   list_all2 (\<lambda>r row. flush_values cols r = Inr row) rs rows"
proof (induction rs arbitrary: rows)
  case Nil
  show ?case by auto
next
  case (Cons r rs)
  show ?case
    by (cases "flush_values cols r"; cases "flush_records cols rs"; cases rows)
       (auto simp: Cons.IH [symmetric])
qed

lemma records_foldl:
  "records (foldl writer_apply w cs) = records w @ concat (map inserted cs)"
proof (induction cs arbitrary: w)
  case Nil
  show ?case by simp
next
  case (Cons c cs)
  show ?case by (cases c) (simp_all add: Cons.IH insert_record_def insertMany_def)
qed

lemma columns_foldl:
  "TableWriter.columns (foldl writer_apply w cs) = TableWriter.columns w"
proof (induction cs arbitrary: w)
  case Nil
  show ?case by simp
next
  case (Cons c cs)
  show ?case by (cases c) (simp_all add: Cons.IH insert_record_def insertMany_def)
qed

lemma flush_value_cell_of: "flush_value c r = Inr x \<longleftrightarrow> cell_of c r x"
  by (auto simp: flush_value_def cell_of_def Let_def split: sum.splits option.splits)

text \<open>
  C7. Whatever sequence of \<^verbatim>\<open>insert\<close> and \<^verbatim>\<open>insertMany\<close> calls a fresh writer of a table
  receives, \<^verbatim>\<open>flush\<close> returns rows exactly when they are: one row per inserted record, in
  insertion order, each with one cell per column of the table in the table's column order,
  the cell being \<^verbatim>\<open>null\<close> for a null or absent value and the serialized value otherwise.
  (So \<^verbatim>\<open>flush\<close> returns such rows whenever every value that is not null serializes.)
\<close>

theorem flush_rows:
  "flush (foldl writer_apply (createWriter t) cs) = Inr rows \<longleftrightarrow>
   list_all2 (\<lambda>r row. list_all2 (\<lambda>c x. cell_of c r x) (Table.columns t) row)
     (concat (map inserted cs)) rows"
  by (simp add: flush_def records_foldl columns_foldl createWriter_def flush_records_iff
      flush_values_iff flush_value_cell_of)

theorem flush_rows_witness:
  "flush (foldl writer_apply (createWriter scenario_table) scenario_inserts)
     = Inr [[Some (PNumber (Finite 1)), None], [Some (PNumber (Finite 2)), None]]"
  using flush_rows [of scenario_table scenario_inserts
      "[[Some (PNumber (Finite 1)), None], [Some (PNumber (Finite 2)), None]]"]
  by (simp add: scenario_table_def scenario_inserts_def TableOf_def ColumnOf_def cell_of_def
      get_prop_def Numeric_def String_def)

lemma flush_values_nth:
  "flush_values cols r = Inr row \<Longrightarrow> j < length cols \<Longrightarrow>
   flush_value (cols ! j) r = Inr (row ! j)"
  by (simp add: flush_values_iff list_all2_conv_all_nth)

lemma flush_records_nth:
  "flush_records cols rs = Inr rows \<Longrightarrow> i < length rs \<Longrightarrow>
   flush_values cols (rs ! i) = Inr (rows ! i)"
  by (simp add: flush_records_iff list_all2_conv_all_nth)

lemma flush_values_error:
  "flush_values cols r = Inl e \<Longrightarrow> \<exists>c \<in> set cols. flush_value c r = Inl e"
  by (induction cols) (auto split: sum.splits)

lemma flush_records_error:
  "flush_records cols rs = Inl e \<Longrightarrow> \<exists>r \<in> set rs. flush_values cols r = Inl e"
  by (induction rs) (auto split: sum.splits)

lemma flush_value_error:
  "flush_value c r = Inl e \<Longrightarrow>
     \<not> is_nullish (get_prop r (Column.name c)) \<and>
     serialize (type (data c)) (get_prop r (Column.name c)) = Inl e"
  by (auto simp: flush_value_def Let_def split: if_splits sum.splits)

text \<open>
  C2, as stated, fails: the record \<^verbatim>\<open>{}\<close> inserted into a table whose column \<^verbatim>\<open>id\<close> is
  not nullable is not rejected, neither by \<^verbatim>\<open>insert\<close> nor by \<^verbatim>\<open>flush\<close>, and flushes to
  the row \<^verbatim>\<open>[null]\<close>.
\<close>

theorem flush_missing_non_nullable_counterexample:
  "\<not> nullable (options (data (hd (Table.columns strict_table)))) \<and>
   get_prop Map.empty (Column.name (hd (Table.columns strict_table))) = Undefined \<and>
   flush (insert_record Map.empty (createWriter strict_table)) = Inr [[None]]"
  by (simp add: strict_table_def TableOf_def ColumnOf_def createWriter_def insert_record_def
      flush_def flush_value_def get_prop_def)

text \<open>
  C2, amended. \<^verbatim>\<open>flush\<close> does not look at \<^verbatim>\<open>nullable\<close>: for every column, nullable or
  not, a null or absent value yields \<^verbatim>\<open>null\<close> in the flushed row, and \<^verbatim>\<open>flush\<close> throws
  only what the \<^verbatim>\<open>serialize\<close> of a column throws on a value that is not null.
\<close>

theorem flush_null_cells:
  "(flush w = Inr rows \<longrightarrow>
      (\<forall>i < length (records w). \<forall>j < length (TableWriter.columns w).
         is_nullish (get_prop (records w ! i) (Column.name (TableWriter.columns w ! j)))
           \<longrightarrow> rows ! i ! j = None)) \<and>
   (flush w = Inl e \<longrightarrow>
      (\<exists>r \<in> set (records w). \<exists>c \<in> set (TableWriter.columns w).
         \<not> is_nullish (get_prop r (Column.name c)) \<and>
         serialize (type (data c)) (get_prop r (Column.name c)) = Inl e))"
proof (intro conjI impI allI)
  fix i j
  assume f: "flush w = Inr rows" and i: "i < length (records w)"
    and j: "j < length (TableWriter.columns w)"
    and n: "is_nullish (get_prop (records w ! i) (Column.name (TableWriter.columns w ! j)))"
  from f i have "flush_values (TableWriter.columns w) (records w ! i) = Inr (rows ! i)"
    by (simp add: flush_def flush_records_nth)
  with j have "flush_value (TableWriter.columns w ! j) (records w ! i) = Inr (rows ! i ! j)"
    by (simp add: flush_values_nth)
  with n show "rows ! i ! j = None"
    by (simp add: flush_value_def Let_def)
next
  assume "flush w = Inl e"
  then obtain r where r: "r \<in> set (records w)" "flush_values (TableWriter.columns w) r = Inl e"
    unfolding flush_def by (blast dest: flush_records_error)
  then obtain c where c: "c \<in> set (TableWriter.columns w)" "flush_value c r = Inl e"
    by (blast dest: flush_values_error)
  with r flush_value_error [OF c(2)]
  show "\<exists>r \<in> set (records w). \<exists>c \<in> set (TableWriter.columns w).
         \<not> is_nullish (get_prop r (Column.name c)) \<and>
         serialize (type (data c)) (get_prop r (Column.name c)) = Inl e"
    by blast
qed

theorem flush_null_cells_witness:
  "flush (insert_record Map.empty (createWriter strict_table)) = Inr [[None]] \<and>
   ([[None]] :: cell list list) ! 0 ! 0 = None"
  using flush_null_cells [of "insert_record Map.empty (createWriter strict_table)" "[[None]]"]
  by (simp add: strict_table_def TableOf_def ColumnOf_def createWriter_def insert_record_def
      flush_def flush_value_def get_prop_def)

section \<open>Types\<close>

lemma String_serialize_wrong_shape:
  "(\<And>s. v \<noteq> JString s) \<Longrightarrow> serialize String v = Inl (AssertionError None)"
  by (cases v) (auto simp: String_def)

lemma Numeric_serialize_wrong_shape:
  "(\<And>n. v \<noteq> JNumber n) \<Longrightarrow> (\<And>i. v \<noteq> JBigInt i) \<Longrightarrow> serialize Numeric v = Inl (Error None)"
  by (cases v) (auto simp: Numeric_def)

lemma Boolean_serialize_wrong_shape:
  "(\<And>b. v \<noteq> JBoolean b) \<Longrightarrow>
   serialize Boolean v = Inl (AssertionError (Some ''Invalid boolean''))"
  by (cases v) (auto simp: Boolean_def)

text \<open>
  C3 at a failing input. \<^verbatim>\<open>String\<close>, \<^verbatim>\<open>Numeric\<close> and \<^verbatim>\<open>Boolean\<close> throw on a value of
  another shape (the three lemmas above); \<^verbatim>\<open>DateTime\<close> has no such check: given the
  number \<^verbatim>\<open>0\<close>, which is not a \<^verbatim>\<open>Date\<close>, its \<^verbatim>\<open>serialize\<close> returns the number
  \<^verbatim>\<open>25569\<close>; given \<^verbatim>\<open>true\<close> it returns a number as well.
\<close>

theorem DateTime_serialize_wrong_shape:
  "serialize (DateTime rt) (JNumber (Finite 0)) = Inr (PNumber (Finite 25569)) \<and>
   serialize (DateTime rt) (JBoolean False) = Inr (PNumber (Finite 25569)) \<and>
   serialize (DateTime rt) (JString s)
     = Inr (PNumber (add_const (div_const (StringToNumber rt s) 86400000) 25569))"
  by (simp add: DateTime_def)

section \<open>Database\<close>

text \<open>The definitions unfolded to run the code on the stand-in service.\<close>

lemmas run_defs =
  transact_def advance_def close_def connect_def migrate_def migrate_requests_def
  scenario_db_def DatabaseOf_def scenario_callback_def scenario_inserts_def
  scenario_table_def TableOf_def ColumnOf_def createChunk_def createWriter_def
  store_call_def store_get_def store_chunk_def insert_record_def insertMany_def
  getNextRowIndex_def issue_def memory_client_def failing_client_def empty_world_def
  empty_memory_def append_request_def reservation_spreadsheetId_def index_of_tableRange_def
  exec_tableRange_def is_digit_def is_upper_def is_line_terminator_def quote_def
  Number_digits_def digit_value_def table_range_def show_nat.simps flush_def flush_value_def
  get_prop_def Numeric_def String_def checkpoint_range_def status_title_def has_sheet_def
  is_new_table_def first_cell_def checkpoint_of_def Let_def
  scenario_run_def failing_run_def

lemma issue_calls: "issue req f w = (r, w') \<Longrightarrow> calls w' = calls w @ [req]"
  by (auto simp: issue_def split: prod.splits)

lemma issue_result:
  "issue req f w = (fst (f (remote w)), \<lparr>remote = snd (f (remote w)), calls = calls w @ [req]\<rparr>)"
  by (simp add: issue_def split: prod.splits)

lemma getNextRowIndex_calls:
  "getNextRowIndex db sheet w = (r, w') \<Longrightarrow> calls w' = calls w @ [append_request sheet]"
  by (auto simp: getNextRowIndex_def append_request_def split: prod.splits sum.splits dest: issue_calls)

lemma all_started_calls:
  "all_started (\<lambda>(a, t). getNextRowIndex db (Table.name t)) ts w = (rs, w') \<Longrightarrow>
   calls w' = calls w @ map (\<lambda>(a, t). append_request (Table.name t)) ts"
proof (induction ts arbitrary: w rs w')
  case Nil
  then show ?case by simp
next
  case (Cons x ts)
  obtain a t where x: "x = (a, t)" by (cases x)
  obtain r w1 where g: "getNextRowIndex db (Table.name t) w = (r, w1)" by fastforce
  obtain rs' w2 where s: "all_started (\<lambda>(a, t). getNextRowIndex db (Table.name t)) ts w1 = (rs', w2)"
    by fastforce
  from Cons.prems x g s have "w' = w2" by simp
  with Cons.IH [OF s] getNextRowIndex_calls [OF g] x show ?case by simp
qed

lemma all_started_length: "all_started f xs w = (rs, w') \<Longrightarrow> length rs = length xs"
  by (induction xs arbitrary: w rs) (auto split: prod.splits)

lemma Promise_all_Inr: "Promise_all rs = Inr xs \<Longrightarrow> rs = map Inr xs"
proof (induction rs arbitrary: xs)
  case Nil
  then show ?case by simp
next
  case (Cons r rs)
  then show ?case by (cases r) (auto split: sum.splits)
qed

lemma flush_length: "flush wr = Inr rows \<Longrightarrow> length rows = length (records wr)"
  by (simp add: flush_def flush_records_iff list_all2_lengthD)

lemma table_requests_length:
  "table_requests ch ps = Inr reqs \<Longrightarrow> length reqs = length ps"
proof (induction ps arbitrary: reqs)
  case Nil
  then show ?case by simp
next
  case (Cons p ps)
  obtain a t i where p: "p = ((a, t), i)" by (cases p) auto
  from Cons.prems Cons.IH show ?case
    unfolding p by (auto split: option.splits sum.splits)
qed

lemma table_requests_nth:
  "table_requests ch ps = Inr reqs \<Longrightarrow> k < length ps \<Longrightarrow>
   \<exists>wr. ch (fst (fst (ps ! k))) = Some wr \<and> flush wr = Inr (snd (reqs ! k)) \<and>
        fst (reqs ! k) = table_range (snd (fst (ps ! k))) (snd (ps ! k))"
proof (induction ps arbitrary: reqs k)
  case Nil
  then show ?case by simp
next
  case (Cons p ps)
  obtain a t i where p: "p = ((a, t), i)" by (cases p) auto
  from Cons.prems(1) obtain wr vals rest where
    w: "ch a = Some wr" "flush wr = Inr vals" "table_requests ch ps = Inr rest"
       "reqs = (table_range t i, vals) # rest"
    unfolding p by (auto split: option.splits sum.splits)
  show ?case
  proof (cases k)
    case 0
    with w p show ?thesis by simp
  next
    case (Suc k')
    with Cons.prems(2) have "k' < length ps" by simp
    from Cons.IH [OF w(3) this] Suc w(4) show ?thesis by simp
  qed
qed

lemma transact_frame:
  "transact db from to cb w = (r, db', tx', w') \<Longrightarrow>
   \<not> is_open tx' \<and> (case r of Inl e \<Rightarrow> db' = db | Inr u \<Rightarrow> db' = db\<lparr>lastCommitted := to\<rparr>)"
  by (auto simp: transact_def split: prod.splits sum.splits)

text \<open>
  C1 at a failing input. Every append request of the row reservation is sent to the
  spreadsheet \<^verbatim>\<open>1g6aHhV7-EsB6SRmM9KIQq9y_Mm4ZVfMw_5aK79NvDXg\<close>, a literal of
  \<^verbatim>\<open>getNextRowIndex\<close>, whatever spreadsheet id the database was constructed with: a
  database constructed with \<^verbatim>\<open>my-spreadsheet\<close> appends to the literal one and then
  sends its batched update to \<^verbatim>\<open>my-spreadsheet\<close>.
\<close>

theorem reservation_spreadsheet:
  "calls (snd (getNextRowIndex db sheet w)) =
     calls w @ [Values_append ''1g6aHhV7-EsB6SRmM9KIQq9y_Mm4ZVfMw_5aK79NvDXg''
                 ([quote] @ sheet @ [quote]) ''RAW'' [[Some (PString [])]]] \<and>
   spreadsheetId (scenario_db memory_client) = ''my-spreadsheet'' \<and>
   calls (snd (snd (snd scenario_run))) =
     [Values_append ''1g6aHhV7-EsB6SRmM9KIQq9y_Mm4ZVfMw_5aK79NvDXg'' ([quote] @ ''A'' @ [quote])
        ''RAW'' [[Some (PString [])]],
      Values_batchUpdate ''my-spreadsheet''
        [([quote] @ ''A'' @ [quote] @ ''!R2C1:C2'',
          [[Some (PNumber (Finite 1)), None], [Some (PNumber (Finite 2)), None]]),
         (''squid_status!R1C1'', [[Some (PNumber (Finite 1))]])] ''USER_ENTERED'' False]"
proof (intro conjI)
  show "calls (snd (getNextRowIndex db sheet w)) =
     calls w @ [Values_append ''1g6aHhV7-EsB6SRmM9KIQq9y_Mm4ZVfMw_5aK79NvDXg''
                 ([quote] @ sheet @ [quote]) ''RAW'' [[Some (PString [])]]]"
    using getNextRowIndex_calls [of db sheet w]
    by (cases "getNextRowIndex db sheet w")
       (simp add: append_request_def reservation_spreadsheetId_def)
qed (simp_all add: run_defs)

text \<open>
  C4, as stated, fails: the target range of a table's write is not sized to the buffered
  row count. A transaction that buffers one row and one that buffers two send the same
  range \<^verbatim>\<open>'A'!R2C1:C2\<close>, which names no last row; the rows reserved for two buffered rows
  from index 1 would be \<^verbatim>\<open>'A'!R2C1:R3C2\<close>.
\<close>

theorem transact_range_counterexample:
  "last (calls (snd (snd (snd (transact (scenario_db memory_client) (Finite 0) (Finite 1)
       single_callback empty_world))))) =
     batched_update (scenario_db memory_client)
       [([quote] @ ''A'' @ [quote] @ ''!R2C1:C2'', [[Some (PNumber (Finite 1)), None]])] (Finite 1) \<and>
   last (calls (snd (snd (snd scenario_run)))) =
     batched_update (scenario_db memory_client)
       [([quote] @ ''A'' @ [quote] @ ''!R2C1:C2'',
         [[Some (PNumber (Finite 1)), None], [Some (PNumber (Finite 2)), None]])] (Finite 1) \<and>
   reserved_row_range scenario_table 1 1 = [quote] @ ''A'' @ [quote] @ ''!R2C1:R2C2'' \<and>
   reserved_row_range scenario_table 1 2 = [quote] @ ''A'' @ [quote] @ ''!R2C1:R3C2'' \<and>
   [quote] @ ''A'' @ [quote] @ ''!R2C1:C2'' \<noteq> reserved_row_range scenario_table 1 2"
  by (simp add: run_defs single_callback_def batched_update_def reserved_row_range_def)

text \<open>
  C4, amended. When the callback completes, every reservation yields an index and every
  writer flushes, \<^verbatim>\<open>transact\<close> sends, after one append request per declared table, one
  batched update and nothing else. Its payload holds one write per declared table, in the
  order of the tables, then the write of \<open>to\<close> into the checkpoint cell. The write of a
  table has the range \<^verbatim>\<open>'<name>'!R<index + 1>C1:C<number of columns>\<close>, which starts at
  the row after the index the reservation gave and names no last row, and its values are
  the rows the table's writer flushes, as many as it has buffered records.
\<close>

theorem transact_batched_update:
  assumes cb: "run_callback db cb \<lparr>is_open = True, chunk = createChunk db\<rparr> = (Inr (), tx)"
    and res: "all_started (\<lambda>(a, t). getNextRowIndex db (Table.name t)) (tables db) w = (answers, w1)"
    and idx: "Promise_all answers = Inr indices"
    and fl: "table_requests (chunk tx) (zip (tables db) indices) = Inr requests"
  shows "calls (snd (snd (snd (transact db from to cb w)))) =
           calls w @ map (\<lambda>(a, t). append_request (Table.name t)) (tables db)
             @ [batched_update db requests to] \<and>
         length requests = length (tables db) \<and>
         (\<forall>i < length (tables db). \<exists>wr.
            answers ! i = Inr (indices ! i) \<and>
            chunk tx (fst (tables db ! i)) = Some wr \<and>
            fst (requests ! i) =
              [quote] @ Table.name (snd (tables db ! i)) @ [quote] @ ''!R''
                @ show_nat (indices ! i + 1) @ ''C1:C''
                @ show_nat (length (Table.columns (snd (tables db ! i)))) \<and>
            flush wr = Inr (snd (requests ! i)) \<and>
            length (snd (requests ! i)) = length (records wr))"
proof -
  have la: "length answers = length (tables db)"
    using res by (rule all_started_length)
  have am: "answers = map Inr indices"
    using idx by (rule Promise_all_Inr)
  with la have li: "length indices = length (tables db)" by simp
  have lr: "length requests = length (tables db)"
    using table_requests_length [OF fl] li by simp
  have c1: "calls w1 = calls w @ map (\<lambda>(a, t). append_request (Table.name t)) (tables db)"
    using res by (rule all_started_calls)
  have "calls (snd (snd (snd (transact db from to cb w)))) =
          calls w1 @ [batched_update db requests to]"
    using cb res idx fl
    by (simp add: transact_def batched_update_def checkpoint_range_def issue_result
        split: sum.splits)
  with c1 have A: "calls (snd (snd (snd (transact db from to cb w)))) =
           calls w @ map (\<lambda>(a, t). append_request (Table.name t)) (tables db)
             @ [batched_update db requests to]" by simp
  have B: "\<exists>wr. answers ! i = Inr (indices ! i) \<and>
            chunk tx (fst (tables db ! i)) = Some wr \<and>
            fst (requests ! i) =
              [quote] @ Table.name (snd (tables db ! i)) @ [quote] @ ''!R''
                @ show_nat (indices ! i + 1) @ ''C1:C''
                @ show_nat (length (Table.columns (snd (tables db ! i)))) \<and>
            flush wr = Inr (snd (requests ! i)) \<and>
            length (snd (requests ! i)) = length (records wr)"
    if i: "i < length (tables db)" for i
  proof -
    from i li have iz: "i < length (zip (tables db) indices)" by simp
    from table_requests_nth [OF fl iz] i li obtain wr where
      wr: "chunk tx (fst (tables db ! i)) = Some wr" "flush wr = Inr (snd (requests ! i))"
          "fst (requests ! i) = table_range (snd (tables db ! i)) (indices ! i)"
      by auto
    from am i li have "answers ! i = Inr (indices ! i)" by simp
    with wr flush_length [OF wr(2)] show ?thesis
      by (simp add: table_range_def)
  qed
  from A lr B show ?thesis by blast
qed

theorem transact_batched_update_witness:
  "calls (snd (snd (snd scenario_run))) =
     [append_request ''A'',
      batched_update (scenario_db memory_client)
        [([quote] @ ''A'' @ [quote] @ ''!R2C1:C2'',
          [[Some (PNumber (Finite 1)), None], [Some (PNumber (Finite 2)), None]])] (Finite 1)]"
  using transact_batched_update [of "scenario_db memory_client" scenario_callback
      "snd (run_callback (scenario_db memory_client) scenario_callback
         \<lparr>is_open = True, chunk = createChunk (scenario_db memory_client)\<rparr>)"
      empty_world
      "fst (all_started (\<lambda>(a, t). getNextRowIndex (scenario_db memory_client) (Table.name t))
         (tables (scenario_db memory_client)) empty_world)"
      "snd (all_started (\<lambda>(a, t). getNextRowIndex (scenario_db memory_client) (Table.name t))
         (tables (scenario_db memory_client)) empty_world)"
      "[1]"
      "[([quote] @ ''A'' @ [quote] @ ''!R2C1:C2'',
          [[Some (PNumber (Finite 1)), None], [Some (PNumber (Finite 2)), None]])]"
      "Finite 0" "Finite 1"]
  by (simp add: run_defs batched_update_def)

text \<open>
  C5. However \<^verbatim>\<open>transact\<close> settles, the store is closed. When it rejects, the in-memory
  checkpoint \<^verbatim>\<open>lastCommitted\<close> is unchanged; when it resolves, \<^verbatim>\<open>lastCommitted\<close> is
  \<open>to\<close>. It rejects, with the error of the step, when the callback fails, when a row
  reservation fails, when a flush fails and when the batched write is rejected, and it
  resolves when none of them does.
\<close>

theorem transact_settles:
  assumes t: "transact db from to cb w = (r, db', tx', w')"
  shows "\<not> is_open tx' \<and>
    (\<forall>e. r = Inl e \<longrightarrow> lastCommitted db' = lastCommitted db) \<and>
    (r = Inr () \<longrightarrow> lastCommitted db' = to) \<and>
    (\<forall>e tx. run_callback db cb \<lparr>is_open = True, chunk = createChunk db\<rparr> = (Inl e, tx)
        \<longrightarrow> r = Inl e) \<and>
    (\<forall>tx answers w1.
        run_callback db cb \<lparr>is_open = True, chunk = createChunk db\<rparr> = (Inr (), tx) \<and>
        all_started (\<lambda>(a, t). getNextRowIndex db (Table.name t)) (tables db) w = (answers, w1)
        \<longrightarrow>
          (\<forall>e. Promise_all answers = Inl e \<longrightarrow> r = Inl e) \<and>
          (\<forall>indices. Promise_all answers = Inr indices \<longrightarrow>
             (\<forall>e. table_requests (chunk tx) (zip (tables db) indices) = Inl e \<longrightarrow> r = Inl e) \<and>
             (\<forall>requests. table_requests (chunk tx) (zip (tables db) indices) = Inr requests \<longrightarrow>
                (\<forall>e. fst (values_batchUpdate (sheetsClient db) (spreadsheetId db)
                            (requests @ [(checkpoint_range, [[Some (PNumber to)]])])
                            ''USER_ENTERED'' False (remote w1)) = Inl e \<longrightarrow> r = Inl e) \<and>
                (fst (values_batchUpdate (sheetsClient db) (spreadsheetId db)
                            (requests @ [(checkpoint_range, [[Some (PNumber to)]])])
                            ''USER_ENTERED'' False (remote w1)) = Inr () \<longrightarrow> r = Inr ()))))"
proof -
  from transact_frame [OF t] have "\<not> is_open tx'"
    and "\<forall>e. r = Inl e \<longrightarrow> lastCommitted db' = lastCommitted db"
    and "r = Inr () \<longrightarrow> lastCommitted db' = to"
    by (auto split: sum.splits)
  moreover have "\<forall>e tx. run_callback db cb \<lparr>is_open = True, chunk = createChunk db\<rparr> = (Inl e, tx)
        \<longrightarrow> r = Inl e"
    using t by (auto simp: transact_def)
  moreover have "\<forall>tx answers w1.
        run_callback db cb \<lparr>is_open = True, chunk = createChunk db\<rparr> = (Inr (), tx) \<and>
        all_started (\<lambda>(a, t). getNextRowIndex db (Table.name t)) (tables db) w = (answers, w1)
        \<longrightarrow>
          (\<forall>e. Promise_all answers = Inl e \<longrightarrow> r = Inl e) \<and>
          (\<forall>indices. Promise_all answers = Inr indices \<longrightarrow>
             (\<forall>e. table_requests (chunk tx) (zip (tables db) indices) = Inl e \<longrightarrow> r = Inl e) \<and>
             (\<forall>requests. table_requests (chunk tx) (zip (tables db) indices) = Inr requests \<longrightarrow>
                (\<forall>e. fst (values_batchUpdate (sheetsClient db) (spreadsheetId db)
                            (requests @ [(checkpoint_range, [[Some (PNumber to)]])])
                            ''USER_ENTERED'' False (remote w1)) = Inl e \<longrightarrow> r = Inl e) \<and>
                (fst (values_batchUpdate (sheetsClient db) (spreadsheetId db)
                            (requests @ [(checkpoint_range, [[Some (PNumber to)]])])
                            ''USER_ENTERED'' False (remote w1)) = Inr () \<longrightarrow> r = Inr ())))"
    using t by (auto simp: transact_def issue_result)
  ultimately show ?thesis by blast
qed

theorem transact_settles_witness:
  "fst failing_run = Inl (Rejected ''quota'') \<and>
   lastCommitted (fst (snd failing_run)) = Finite (- 1) \<and>
   \<not> is_open (fst (snd (snd failing_run))) \<and>
   fst scenario_run = Inr () \<and>
   lastCommitted (fst (snd scenario_run)) = Finite 1 \<and>
   \<not> is_open (fst (snd (snd scenario_run)))"
proof -
  have f: "fst failing_run = Inl (Rejected ''quota'')"
    by (simp add: run_defs)
  have s: "fst scenario_run = Inr ()"
    by (simp add: run_defs)
  have ef: "transact (scenario_db failing_client) (Finite 0) (Finite 1) scenario_callback
      empty_world
    = (fst failing_run, fst (snd failing_run), fst (snd (snd failing_run)),
       snd (snd (snd failing_run)))"
    by (simp add: failing_run_def)
  have es: "transact (scenario_db memory_client) (Finite 0) (Finite 1) scenario_callback
      empty_world
    = (fst scenario_run, fst (snd scenario_run), fst (snd (snd scenario_run)),
       snd (snd (snd scenario_run)))"
    by (simp add: scenario_run_def)
  note tf = transact_settles [OF ef]
  note ts = transact_settles [OF es]
  have "lastCommitted (fst (snd failing_run)) = lastCommitted (scenario_db failing_client)"
    using tf [THEN conjunct2, THEN conjunct1] f by blast
  then have lf: "lastCommitted (fst (snd failing_run)) = Finite (- 1)"
    by (simp add: scenario_db_def DatabaseOf_def)
  have ls: "lastCommitted (fst (snd scenario_run)) = Finite 1"
    using ts [THEN conjunct2, THEN conjunct2, THEN conjunct1] s by blast
  from f lf tf [THEN conjunct1] s ls ts [THEN conjunct1] show ?thesis
    by blast
qed

text \<open>
  C6. After \<^verbatim>\<open>transact\<close> has settled, with success or with failure, every access of a
  declared table through its store (the getter, and so \<^verbatim>\<open>insert\<close> and \<^verbatim>\<open>insertMany\<close>
  through it) fails with the error \<^verbatim>\<open>Transaction was already closed\<close>; a callback that
  makes such a call ends with that error and leaves the write buffers as they were.
  An access of the store takes and returns no state of the backing service: it sends
  no request.
\<close>

theorem store_closed_after_transact:
  assumes t: "transact db from to cb w = (r, db', tx', w')"
    and n: "n \<in> set (map fst (tables db))"
  shows "tables db' = tables db \<and>
         store_get db' tx' n = Inl closed_error \<and>
         store_call db' tx' n c = Inl closed_error \<and>
         run_callback db' (Call n c # steps) tx' = (Inl closed_error, tx')"
proof -
  from transact_frame [OF t] have o: "\<not> is_open tx'" and d: "tables db' = tables db"
    by (auto split: sum.splits)
  from o d n have g: "store_get db' tx' n = Inl closed_error"
    by (simp add: store_get_def store_chunk_def closed_error_def)
  then have "store_call db' tx' n c = Inl closed_error"
    by (simp add: store_call_def)
  with g d show ?thesis by simp
qed

theorem store_closed_after_transact_witness:
  "store_call (fst (snd scenario_run)) (fst (snd (snd scenario_run))) ''a'' (Insert Map.empty)
     = Inl closed_error \<and>
   store_call (fst (snd failing_run)) (fst (snd (snd failing_run))) ''a'' (Insert Map.empty)
     = Inl closed_error"
  using store_closed_after_transact [of "scenario_db memory_client" "Finite 0" "Finite 1"
      scenario_callback empty_world "fst scenario_run" "fst (snd scenario_run)"
      "fst (snd (snd scenario_run))" "snd (snd (snd scenario_run))" "''a''" "Insert Map.empty"]
    store_closed_after_transact [of "scenario_db failing_client" "Finite 0" "Finite 1"
      scenario_callback empty_world "fst failing_run" "fst (snd failing_run)"
      "fst (snd (snd failing_run))" "snd (snd (snd failing_run))" "''a''" "Insert Map.empty"]
  by (simp add: scenario_run_def failing_run_def scenario_db_def DatabaseOf_def)

text \<open>
  C8. \<^verbatim>\<open>advance(height)\<close> with \<open>height\<close> equal (\<^verbatim>\<open>==\<close>) to the in-memory checkpoint
  changes nothing and sends no request. Otherwise it sends exactly one request, the
  write of \<open>height\<close> into the cell \<^verbatim>\<open>squid_status!R1C1\<close> of the database's spreadsheet:
  the state of the backing service afterwards is what that one call leaves, and the
  result is the result of that call.
\<close>

theorem advance_checkpoint_only:
  "(num_eq (lastCommitted db) height \<longrightarrow> advance db height w = (Inr (), db, w)) \<and>
   (\<not> num_eq (lastCommitted db) height \<longrightarrow>
      advance db height w =
        (fst (values_update (sheetsClient db) (spreadsheetId db) ''squid_status!R1C1''
                [[Some (PNumber height)]] ''USER_ENTERED'' (remote w)),
         db,
         \<lparr>remote = snd (values_update (sheetsClient db) (spreadsheetId db) ''squid_status!R1C1''
                [[Some (PNumber height)]] ''USER_ENTERED'' (remote w)),
          calls = calls w @ [checkpoint_update db height]\<rparr>))"
  by (simp add: advance_def issue_result checkpoint_range_def checkpoint_update_def)

theorem advance_checkpoint_only_witness:
  "advance (scenario_db memory_client) (Finite (- 1)) empty_world
     = (Inr (), scenario_db memory_client, empty_world) \<and>
   calls (snd (snd (advance (scenario_db memory_client) (Finite 7) empty_world)))
     = [Values_update ''my-spreadsheet'' ''squid_status!R1C1'' [[Some (PNumber (Finite 7))]]
          ''USER_ENTERED'']"
  using advance_checkpoint_only [of "scenario_db memory_client" "Finite (- 1)" empty_world]
    advance_checkpoint_only [of "scenario_db memory_client" "Finite 7" empty_world]
  by (simp add: scenario_db_def DatabaseOf_def empty_world_def checkpoint_update_def)

text \<open>
  C10. \<^verbatim>\<open>advance\<close> returns the database as it was, \<^verbatim>\<open>lastCommitted\<close> included. So
  after an \<^verbatim>\<open>advance(h)\<close> with \<open>h\<close> different from the in-memory checkpoint, a second
  \<^verbatim>\<open>advance(h)\<close> sends the write again. A \<^verbatim>\<open>transact\<close> that rejects leaves
  \<^verbatim>\<open>lastCommitted\<close> unchanged as well; one that resolves sets it to \<open>to\<close>, and
  \<^verbatim>\<open>close\<close> sets it to \<open>-1\<close>.
\<close>

theorem advance_keeps_lastCommitted:
  "fst (snd (advance db height w)) = db \<and>
   (\<not> num_eq (lastCommitted db) height \<longrightarrow>
      (case advance db height w of
         (r1, db1, w1) \<Rightarrow>
           calls (snd (snd (advance db1 height w1))) =
             calls w @ [checkpoint_update db height, checkpoint_update db height])) \<and>
   (\<forall>e. fst (transact db from to cb w) = Inl e \<longrightarrow>
      lastCommitted (fst (snd (transact db from to cb w))) = lastCommitted db) \<and>
   (fst (transact db from to cb w) = Inr () \<longrightarrow>
      lastCommitted (fst (snd (transact db from to cb w))) = to) \<and>
   lastCommitted (close db) = Finite (- 1)"
proof -
  have a: "fst (snd (advance db height w)) = db"
    by (simp add: advance_def issue_result)
  have b: "\<not> num_eq (lastCommitted db) height \<longrightarrow>
      (case advance db height w of
         (r1, db1, w1) \<Rightarrow>
           calls (snd (snd (advance db1 height w1))) =
             calls w @ [checkpoint_update db height, checkpoint_update db height])"
    by (simp add: advance_def issue_result checkpoint_range_def checkpoint_update_def)
  obtain r db' tx' w' where t: "transact db from to cb w = (r, db', tx', w')"
    by (cases "transact db from to cb w") auto
  from transact_frame [OF t] t
  have c: "(\<forall>e. fst (transact db from to cb w) = Inl e \<longrightarrow>
      lastCommitted (fst (snd (transact db from to cb w))) = lastCommitted db) \<and>
   (fst (transact db from to cb w) = Inr () \<longrightarrow>
      lastCommitted (fst (snd (transact db from to cb w))) = to)"
    by (auto split: sum.splits)
  have d: "lastCommitted (close db) = Finite (- 1)"
    by (simp add: close_def)
  from a b c d show ?thesis by blast
qed

theorem advance_keeps_lastCommitted_witness:
  "lastCommitted (fst (snd (advance (scenario_db memory_client) (Finite 7) empty_world)))
     = Finite (- 1) \<and>
   calls (snd (snd (advance (fst (snd (advance (scenario_db memory_client) (Finite 7) empty_world)))
       (Finite 7) (snd (snd (advance (scenario_db memory_client) (Finite 7) empty_world))))))
     = [Values_update ''my-spreadsheet'' ''squid_status!R1C1'' [[Some (PNumber (Finite 7))]]
          ''USER_ENTERED'',
        Values_update ''my-spreadsheet'' ''squid_status!R1C1'' [[Some (PNumber (Finite 7))]]
          ''USER_ENTERED''] \<and>
   lastCommitted (fst (snd failing_run)) = Finite (- 1)"
  using advance_keeps_lastCommitted [of "scenario_db memory_client" "Finite 7" empty_world]
    advance_keeps_lastCommitted [of "scenario_db failing_client" "Finite 7" empty_world
       "Finite 0" "Finite 1" scenario_callback]
  by (simp add: run_defs checkpoint_update_def)

section \<open>connect\<close>

lemma status_created_append [simp]:
  "status_created (a @ b) = status_created a + status_created b"
  by (simp add: status_created_def)

lemma migrate_titles:
  "concat (map added_title (concat (map (migrate_requests rt) ts))) = map Table.name ts"
  by (induction ts) (simp_all add: migrate_requests_def Let_def)

lemma new_table_not_status:
  "has_sheet sp status_title \<Longrightarrow> is_new_table sp t \<Longrightarrow> Table.name t \<noteq> status_title"
  by (auto simp: has_sheet_def is_new_table_def split: option.splits)

lemma no_status_created:
  assumes "\<forall>t \<in> set ts. Table.name t \<noteq> status_title"
  shows "creates_status (Spreadsheets_batchUpdate sid (concat (map (migrate_requests rt) ts))) = 0"
    and "status_title \<notin> set (concat (map added_title (concat (map (migrate_requests rt) ts))))"
  using assms unfolding creates_status.simps migrate_titles
  by (auto simp: filter_empty_conv)

lemma migrate_with_status:
  assumes acc: "accepts (sheetsClient db)"
    and tr: "tracks_status (sheetsClient db) (spreadsheetId db) has"
    and h: "has (remote w)"
  shows "\<exists>w'. migrate rt db w = (Inr (), w') \<and> has (remote w') \<and>
           status_created (calls w') = status_created (calls w)"
proof -
  let ?c = "sheetsClient db" and ?sid = "spreadsheetId db"
  let ?g = "spreadsheets_get ?c ?sid (remote w)"
  from acc obtain sp where sp: "fst ?g = Inr sp"
    unfolding accepts_def by blast
  from tr h have h1: "has (snd ?g)"
    unfolding tracks_status_def by simp
  from tr sp h have hs: "has_sheet sp status_title"
    unfolding tracks_status_def by blast
  let ?new = "filter (is_new_table sp) (map snd (tables db))"
  let ?reqs = "concat (map (migrate_requests rt) ?new)"
  have "\<forall>t \<in> set ?new. Table.name t \<noteq> status_title"
    using new_table_not_status [OF hs] by simp
  then have zero: "creates_status (Spreadsheets_batchUpdate ?sid ?reqs) = 0"
    by (rule no_status_created)
  let ?b = "spreadsheets_batchUpdate ?c ?sid ?reqs (snd ?g)"
  from acc have b: "fst ?b = Inr ()"
    unfolding accepts_def by blast
  with tr h1 have h2: "has (snd ?b)"
    unfolding tracks_status_def by blast
  show ?thesis
  proof (cases "?new = []")
    case True
    with sp h1 show ?thesis
      by (simp add: migrate_def issue_result Let_def status_created_def)
  next
    case False
    with sp b h2 zero show ?thesis
      by (simp add: migrate_def issue_result Let_def status_created_def)
  qed
qed

lemma connect_without_status:
  assumes acc: "accepts (sheetsClient db)"
    and tr: "tracks_status (sheetsClient db) (spreadsheetId db) has"
    and h: "\<not> has (remote w)"
  shows "\<exists>w'. connect rt db w = (Inr (Finite (- 1)), db\<lparr>lastCommitted := Finite (- 1)\<rparr>, w') \<and>
           has (remote w') \<and>
           status_created (calls w') = status_created (calls w) + 1 \<and>
           take 2 (drop (length (calls w)) (calls w')) =
             [Spreadsheets_get (spreadsheetId db),
              Spreadsheets_batchUpdate (spreadsheetId db) [AddSheet None ''squid_status'' 1 1]]"
proof -
  let ?c = "sheetsClient db" and ?sid = "spreadsheetId db"
  let ?g = "spreadsheets_get ?c ?sid (remote w)"
  let ?add = "[AddSheet None status_title 1 1]"
  let ?b = "spreadsheets_batchUpdate ?c ?sid ?add (snd ?g)"
  let ?db = "db\<lparr>lastCommitted := Finite (- 1)\<rparr>"
  let ?w2 = "\<lparr>remote = snd ?b,
             calls = calls w @ [Spreadsheets_get ?sid, Spreadsheets_batchUpdate ?sid ?add]\<rparr>"
  from acc obtain sp where sp: "fst ?g = Inr sp"
    unfolding accepts_def by blast
  from tr h have h1: "\<not> has (snd ?g)"
    unfolding tracks_status_def by simp
  from tr sp h have hs: "\<not> has_sheet sp status_title"
    unfolding tracks_status_def by blast
  from acc have b: "fst ?b = Inr ()"
    unfolding accepts_def by blast
  with tr have h2: "has (remote ?w2)"
    unfolding tracks_status_def by simp
  have "accepts (sheetsClient ?db)" "tracks_status (sheetsClient ?db) (spreadsheetId ?db) has"
    using acc tr by simp_all
  from migrate_with_status [OF this h2, of rt] obtain w' where
    m: "migrate rt ?db ?w2 = (Inr (), w')" "has (remote w')"
       "status_created (calls w') = status_created (calls ?w2)"
    by blast
  have pre: "\<exists>cs. calls w' = calls ?w2 @ cs"
    using m(1) by (auto simp: migrate_def issue_result Let_def split: sum.splits if_splits)
  have c: "connect rt db w = (Inr (Finite (- 1)), ?db, w')"
    using sp hs b m(1) by (simp add: connect_def issue_result)
  have sc: "status_created (calls w') = status_created (calls w) + 1"
    using m(3) by (simp add: status_created_def)
  from pre have tk: "take 2 (drop (length (calls w)) (calls w')) =
       [Spreadsheets_get ?sid, Spreadsheets_batchUpdate ?sid [AddSheet None ''squid_status'' 1 1]]"
    by (auto simp: status_title_def)
  from c m(2) sc tk show ?thesis by blast
qed

lemma connect_with_status:
  assumes acc: "accepts (sheetsClient db)"
    and tr: "tracks_status (sheetsClient db) (spreadsheetId db) has"
    and h: "has (remote w)"
    and empty: "\<forall>vals. fst (values_get (sheetsClient db) (spreadsheetId db) checkpoint_range
                    (snd (spreadsheets_get (sheetsClient db) (spreadsheetId db) (remote w))))
                  = Inr vals \<longrightarrow> is_nullish (first_cell vals)"
  shows "\<exists>w'. connect rt db w = (Inr (Finite (- 1)), db\<lparr>lastCommitted := Finite (- 1)\<rparr>, w') \<and>
           has (remote w') \<and>
           status_created (calls w') = status_created (calls w) \<and>
           take 2 (drop (length (calls w)) (calls w')) =
             [Spreadsheets_get (spreadsheetId db),
              Values_get (spreadsheetId db) ''squid_status!R1C1'']"
proof -
  let ?c = "sheetsClient db" and ?sid = "spreadsheetId db"
  let ?g = "spreadsheets_get ?c ?sid (remote w)"
  let ?v = "values_get ?c ?sid checkpoint_range (snd ?g)"
  let ?db = "db\<lparr>lastCommitted := Finite (- 1)\<rparr>"
  let ?w2 = "\<lparr>remote = snd ?v,
             calls = calls w @ [Spreadsheets_get ?sid, Values_get ?sid checkpoint_range]\<rparr>"
  from acc obtain sp where sp: "fst ?g = Inr sp"
    unfolding accepts_def by blast
  from tr h have h1: "has (snd ?g)"
    unfolding tracks_status_def by simp
  from tr sp h have hs: "has_sheet sp status_title"
    unfolding tracks_status_def by blast
  from acc obtain vals where v: "fst ?v = Inr vals"
    unfolding accepts_def by blast
  with empty have "is_nullish (first_cell vals)" by blast
  then have cp: "checkpoint_of rt vals = Finite (- 1)"
    by (simp add: checkpoint_of_def)
  from tr h1 have h2: "has (remote ?w2)"
    unfolding tracks_status_def by simp
  have "accepts (sheetsClient ?db)" "tracks_status (sheetsClient ?db) (spreadsheetId ?db) has"
    using acc tr by simp_all
  from migrate_with_status [OF this h2, of rt] obtain w' where
    m: "migrate rt ?db ?w2 = (Inr (), w')" "has (remote w')"
       "status_created (calls w') = status_created (calls ?w2)"
    by blast
  have pre: "\<exists>cs. calls w' = calls ?w2 @ cs"
    using m(1) by (auto simp: migrate_def issue_result Let_def split: sum.splits if_splits)
  have c: "connect rt db w = (Inr (Finite (- 1)), ?db, w')"
    using sp hs v cp m(1) by (simp add: connect_def issue_result)
  have sc: "status_created (calls w') = status_created (calls w)"
    using m(3) by (simp add: status_created_def)
  from pre have tk: "take 2 (drop (length (calls w)) (calls w')) =
       [Spreadsheets_get ?sid, Values_get ?sid ''squid_status!R1C1'']"
    by (auto simp: checkpoint_range_def)
  from c m(2) sc tk show ?thesis by blast
qed

lemma first_connect_eval:
  "first_connect =
     (Inr (Finite (- 1)), scenario_db memory_client,
      \<lparr>remote = \<lparr>titles = [''squid_status'', ''A''], status_cell = None, appended = 0\<rparr>,
       calls =
         [Spreadsheets_get ''my-spreadsheet'',
          Spreadsheets_batchUpdate ''my-spreadsheet'' [AddSheet None ''squid_status'' 1 1],
          Spreadsheets_get ''my-spreadsheet'',
          Spreadsheets_batchUpdate ''my-spreadsheet''
            [AddSheet (Some 0) ''A'' 1 2,
             UpdateCells 0 0 2 0 1 [[(''id'', ''TEXT''), (''name'', ''TEXT'')]]
               ''userEnteredValue(stringValue),userEnteredFormat(numberFormat)'']]\<rparr>)"
  by (simp add: first_connect_def stub_runtime_def run_defs)

text \<open>
  C9. On a service that rejects nothing and remembers the checkpoint sheet, and a
  spreadsheet that has no sheet titled \<^verbatim>\<open>squid_status\<close>: \<^verbatim>\<open>connect()\<close> reads the
  metadata, then creates the checkpoint sheet with one row and one column, and returns
  \<open>-1\<close>. A second \<^verbatim>\<open>connect()\<close> right after it reads the metadata and then the cell
  \<^verbatim>\<open>squid_status!R1C1\<close>, creates no checkpoint sheet, and returns \<open>-1\<close> again when the
  cell reads empty: over the two calls the checkpoint sheet is created exactly once.
\<close>

theorem connect_twice:
  assumes acc: "accepts (sheetsClient db)"
    and tr: "tracks_status (sheetsClient db) (spreadsheetId db) has"
    and h: "\<not> has (remote w)"
    and c1: "connect rt db w = (r1, db1, w1)"
    and c2: "connect rt db1 w1 = (r2, db2, w2)"
    and empty: "\<forall>vals. fst (values_get (sheetsClient db) (spreadsheetId db) checkpoint_range
                    (snd (spreadsheets_get (sheetsClient db) (spreadsheetId db) (remote w1))))
                  = Inr vals \<longrightarrow> is_nullish (first_cell vals)"
  shows "r1 = Inr (Finite (- 1)) \<and> lastCommitted db1 = Finite (- 1) \<and>
         take 2 (drop (length (calls w)) (calls w1)) =
           [Spreadsheets_get (spreadsheetId db),
            Spreadsheets_batchUpdate (spreadsheetId db) [AddSheet None ''squid_status'' 1 1]] \<and>
         status_created (calls w1) = status_created (calls w) + 1 \<and>
         r2 = Inr (Finite (- 1)) \<and> lastCommitted db2 = Finite (- 1) \<and>
         take 2 (drop (length (calls w1)) (calls w2)) =
           [Spreadsheets_get (spreadsheetId db),
            Values_get (spreadsheetId db) ''squid_status!R1C1''] \<and>
         status_created (calls w2) = status_created (calls w) + 1"
proof -
  from connect_without_status [OF acc tr h, of rt] c1
  have 1: "r1 = Inr (Finite (- 1))" "db1 = db\<lparr>lastCommitted := Finite (- 1)\<rparr>"
    "has (remote w1)" "status_created (calls w1) = status_created (calls w) + 1"
    "take 2 (drop (length (calls w)) (calls w1)) =
       [Spreadsheets_get (spreadsheetId db),
        Spreadsheets_batchUpdate (spreadsheetId db) [AddSheet None ''squid_status'' 1 1]]"
    by auto
  have a1: "accepts (sheetsClient db1)"
    and t1: "tracks_status (sheetsClient db1) (spreadsheetId db1) has"
    and e1: "\<forall>vals. fst (values_get (sheetsClient db1) (spreadsheetId db1) checkpoint_range
                    (snd (spreadsheets_get (sheetsClient db1) (spreadsheetId db1) (remote w1))))
                  = Inr vals \<longrightarrow> is_nullish (first_cell vals)"
    using acc tr empty 1(2) by simp_all
  from connect_with_status [OF a1 t1 1(3) e1, of rt] c2 1(2)
  have 2: "r2 = Inr (Finite (- 1))" "lastCommitted db2 = Finite (- 1)"
    "status_created (calls w2) = status_created (calls w1)"
    "take 2 (drop (length (calls w1)) (calls w2)) =
       [Spreadsheets_get (spreadsheetId db), Values_get (spreadsheetId db) ''squid_status!R1C1'']"
    by auto
  from 1 2 show ?thesis by simp
qed

theorem connect_twice_witness:
  "fst first_connect = Inr (Finite (- 1)) \<and>
   fst second_connect = Inr (Finite (- 1)) \<and>
   status_created (calls (snd (snd first_connect))) = 1 \<and>
   status_created (calls (snd (snd second_connect))) = 1"
proof -
  have acc: "accepts (sheetsClient (scenario_db memory_client))"
    by (simp add: accepts_def scenario_db_def DatabaseOf_def memory_client_def)
  have tr: "tracks_status (sheetsClient (scenario_db memory_client))
      (spreadsheetId (scenario_db memory_client)) has_status"
    by (auto simp: tracks_status_def scenario_db_def DatabaseOf_def memory_client_def
        has_status_def has_sheet_def)
  have h: "\<not> has_status (remote empty_world)"
    by (simp add: has_status_def empty_world_def empty_memory_def)
  have c1: "connect stub_runtime (scenario_db memory_client) empty_world
      = (fst first_connect, fst (snd first_connect), snd (snd first_connect))"
    by (simp add: first_connect_def)
  have c2: "connect stub_runtime (fst (snd first_connect)) (snd (snd first_connect))
      = (fst second_connect, fst (snd second_connect), snd (snd second_connect))"
    by (simp add: second_connect_def)
  have empty: "\<forall>vals. fst (values_get (sheetsClient (scenario_db memory_client))
         (spreadsheetId (scenario_db memory_client)) checkpoint_range
         (snd (spreadsheets_get (sheetsClient (scenario_db memory_client))
            (spreadsheetId (scenario_db memory_client)) (remote (snd (snd first_connect))))))
       = Inr vals \<longrightarrow> is_nullish (first_cell vals)"
    by (simp add: first_connect_eval) (simp add: scenario_db_def DatabaseOf_def memory_client_def first_cell_def)
  have z: "status_created (calls empty_world) = 0"
    by (simp add: status_created_def empty_world_def)
  from connect_twice [OF acc tr h c1 c2 empty] z show ?thesis
    by simp
qed

end
